theory Spec2Isabelle
  imports Main "HOL-Library.Sublist" "HOL-Library.Product_Lexorder"
begin

section \<open>Values exchanged with the explorer\<close>

text \<open>
  The detector works on whatever \<^verbatim>\<open>response.json()\<close> returns, so the model keeps the
  parsed JSON value as it is. A Python \<^verbatim>\<open>dict\<close> is an association list read with
  \<open>map_of\<close>; a Python \<^verbatim>\<open>str\<close> is a \<open>string\<close> whose characters stand for the code
  points below 256. JSON numbers are restricted to integers.
\<close>

datatype json =
    JNull
  | JBool bool
  | JNum int
  | JStr string
  | JArr "json list"
  | JObj "(string \<times> json) list"

datatype py_error =
    KeyError
  | TypeError
  | AttributeError
  | IndexError
  | ValueError
  | RequestException

definition bind_err :: "py_error + 'a \<Rightarrow> ('a \<Rightarrow> py_error + 'b) \<Rightarrow> py_error + 'b" where
  "bind_err r f = (case r of Inl e \<Rightarrow> Inl e | Inr x \<Rightarrow> f x)"

text \<open>Truth value of a Python object, as \<^verbatim>\<open>not x\<close> tests it.\<close>

fun truthy :: "json \<Rightarrow> bool" where
  "truthy JNull = False"
| "truthy (JBool b) = b"
| "truthy (JNum n) = (n \<noteq> 0)"
| "truthy (JStr s) = (s \<noteq> [])"
| "truthy (JArr xs) = (xs \<noteq> [])"
| "truthy (JObj kvs) = (kvs \<noteq> [])"

text \<open>\<^verbatim>\<open>x[key]\<close> with a string key: only a dict accepts it, and a missing key raises.\<close>

fun py_item :: "json \<Rightarrow> string \<Rightarrow> py_error + json" where
  "py_item (JObj kvs) k = (case map_of kvs k of None \<Rightarrow> Inl KeyError | Some v \<Rightarrow> Inr v)"
| "py_item _ k = Inl TypeError"

text \<open>\<^verbatim>\<open>x.get(key, default)\<close>: only a dict has the method.\<close>

fun py_get :: "json \<Rightarrow> string \<Rightarrow> json \<Rightarrow> py_error + json" where
  "py_get (JObj kvs) k d = Inr (case map_of kvs k of None \<Rightarrow> d | Some v \<Rightarrow> v)"
| "py_get _ k d = Inl AttributeError"

text \<open>
  \<^verbatim>\<open>x[0]\<close>: the first element of a list, the first character of a string; a dict parsed
  from JSON has string keys only, so the key \<open>0\<close> is always missing.
\<close>

fun py_first :: "json \<Rightarrow> py_error + json" where
  "py_first (JArr []) = Inl IndexError"
| "py_first (JArr (x # xs)) = Inr x"
| "py_first (JStr []) = Inl IndexError"
| "py_first (JStr (c # cs)) = Inr (JStr [c])"
| "py_first (JObj kvs) = Inl KeyError"
| "py_first _ = Inl TypeError"

text \<open>
  \<^verbatim>\<open>x[:10]\<close>: strings and lists are sliced, and a slice never fails on a short
  sequence. The other values raise (a dict raises \<^verbatim>\<open>TypeError\<close> up to Python 3.11 and
  \<^verbatim>\<open>KeyError\<close> from 3.12 on; the model takes the former).
\<close>

fun py_slice10 :: "json \<Rightarrow> py_error + json" where
  "py_slice10 (JStr s) = Inr (JStr (take 10 s))"
| "py_slice10 (JArr xs) = Inr (JArr (take 10 xs))"
| "py_slice10 _ = Inl TypeError"

text \<open>\<^verbatim>\<open>str.strip()\<close> removes the characters for which \<^verbatim>\<open>str.isspace\<close> holds.\<close>

definition py_isspace :: "char \<Rightarrow> bool" where
  "py_isspace c = (of_char c \<in> {9, 10, 11, 12, 13, 28, 29, 30, 31, 32, 133, 160 :: nat})"

definition strip :: "string \<Rightarrow> string" where
  "strip s = rev (dropWhile py_isspace (rev (dropWhile py_isspace s)))"

section \<open>Dates: \<^verbatim>\<open>datetime\<close>, \<^verbatim>\<open>strptime\<close> and \<^verbatim>\<open>timedelta.days\<close>\<close>

record datetime =
  year :: int
  month :: int
  day :: int
  hour :: int
  minute :: int
  second :: int
  microsecond :: int

definition is_leap :: "int \<Rightarrow> bool" where
  "is_leap y = (y mod 4 = 0 \<and> (y mod 100 \<noteq> 0 \<or> y mod 400 = 0))"

definition days_before_year :: "int \<Rightarrow> int" where
  "days_before_year y = (let p = y - 1 in p * 365 + p div 4 - p div 100 + p div 400)"

definition days_in_month :: "int \<Rightarrow> int \<Rightarrow> int" where
  "days_in_month y m =
     (if m = 2 \<and> is_leap y then 29
      else [31, 28, 31, 30, 31, 30, 31, 31, 30, 31, 30, 31] ! nat (m - 1))"

definition days_before_month :: "int \<Rightarrow> int \<Rightarrow> int" where
  "days_before_month y m =
     [0, 31, 59, 90, 120, 151, 181, 212, 243, 273, 304, 334] ! nat (m - 1)
       + (if m > 2 \<and> is_leap y then 1 else 0)"

definition toordinal :: "datetime \<Rightarrow> int" where
  "toordinal dt = days_before_year (year dt) + days_before_month (year dt) (month dt) + day dt"



text \<open>
  \<^verbatim>\<open>(a - b).days\<close>: the difference is a \<^verbatim>\<open>timedelta\<close> normalised so that its
  seconds and microseconds are not negative; its days are therefore the floor of the
  difference in days.
\<close>

definition sub_days :: "datetime \<Rightarrow> datetime \<Rightarrow> int" where
  "sub_days a b =
     (let days = toordinal a - toordinal b;
          secs = (second a + minute a * 60 + hour a * 3600)
                   - (second b + minute b * 60 + hour b * 3600);
          us = microsecond a - microsecond b
      in days + (secs * 1000000 + us) div 86400000000)"

text \<open>
  \<^verbatim>\<open>datetime.strptime(s, "%Y-%m-%d")\<close> matches the regular expression
  \<^verbatim>\<open>(\d\d\d\d)-(1[0-2]|0[1-9]|[1-9])-(3[0-1]|[1-2]\d|0[1-9]|[1-9]| [1-9])\<close>
  at the start of the string, refuses unconverted data after the match, and builds the
  date, which refuses the year 0 and a day the month does not have. Each group lists its
  matches in the order of its alternatives; the first complete match is the one taken.
\<close>

definition is_digit :: "char \<Rightarrow> bool" where
  "is_digit c = (c \<in> set ''0123456789'')"

definition digit_val :: "char \<Rightarrow> int" where
  "digit_val c = int (of_char c) - 48"

definition re_lit :: "char \<Rightarrow> string \<Rightarrow> string list" where
  "re_lit c s = (case s of x # r \<Rightarrow> if x = c then [r] else [] | [] \<Rightarrow> [])"

definition re_Y :: "string \<Rightarrow> (int \<times> string) list" where
  "re_Y s =
     (case s of
        a # b # c # d # r \<Rightarrow>
          if is_digit a \<and> is_digit b \<and> is_digit c \<and> is_digit d
          then [(1000 * digit_val a + 100 * digit_val b + 10 * digit_val c + digit_val d, r)]
          else []
      | _ \<Rightarrow> [])"

definition re_two :: "string \<Rightarrow> string \<Rightarrow> string \<Rightarrow> (int \<times> string) list" where
  "re_two firsts seconds s =
     (case s of
        a # b # r \<Rightarrow>
          if a \<in> set firsts \<and> b \<in> set seconds
          then [(10 * (if is_digit a then digit_val a else 0) + digit_val b, r)] else []
      | _ \<Rightarrow> [])"

definition re_one :: "string \<Rightarrow> (int \<times> string) list" where
  "re_one s =
     (case s of a # r \<Rightarrow> if a \<in> set ''123456789'' then [(digit_val a, r)] else []
      | [] \<Rightarrow> [])"

definition re_m :: "string \<Rightarrow> (int \<times> string) list" where
  "re_m s = re_two ''1'' ''012'' s @ re_two ''0'' ''123456789'' s @ re_one s"

definition re_d :: "string \<Rightarrow> (int \<times> string) list" where
  "re_d s =
     re_two ''3'' ''01'' s @ re_two ''12'' ''0123456789'' s @ re_two ''0'' ''123456789'' s
       @ re_one s @ re_two '' '' ''123456789'' s"

definition strptime_match :: "string \<Rightarrow> (int \<times> int \<times> int \<times> string) list" where
  "strptime_match s =
     concat (map (\<lambda>(y, r1).
       concat (map (\<lambda>r2.
         concat (map (\<lambda>(m, r3).
           concat (map (\<lambda>r4.
             map (\<lambda>(d, r5). (y, m, d, r5)) (re_d r4))
             (re_lit CHR ''-'' r3)))
           (re_m r2)))
         (re_lit CHR ''-'' r1)))
       (re_Y s))"

definition strptime :: "json \<Rightarrow> py_error + datetime" where
  "strptime v =
     (case v of
        JStr s \<Rightarrow>
          (case strptime_match s of
             [] \<Rightarrow> Inl ValueError
           | (y, m, d, rest) # _ \<Rightarrow>
               if rest \<noteq> [] then Inl ValueError
               else if y < 1 \<or> days_in_month y m < d then Inl ValueError
               else Inr \<lparr>year = y, month = m, day = d, hour = 0, minute = 0, second = 0,
                         microsecond = 0\<rparr>)
      | _ \<Rightarrow> Inl TypeError)"

section \<open>The explorer and the two fetchers\<close>

text \<open>
  \<^verbatim>\<open>requests.get(ETHERSCAN_API_URL, params=params)\<close> followed by \<^verbatim>\<open>.json()\<close> is the
  only effect of the program. The explorer is a parameter: given the requests already
  made in this run and the parameters of the present one, it answers with the parsed
  body or with the exception the request raised. Every request is appended to the log,
  which the functions pass along.
\<close>

type_synonym params = "(string \<times> json) list"
type_synonym explorer = "params list \<Rightarrow> params \<Rightarrow> py_error + json"

definition get_json :: "explorer \<Rightarrow> params \<Rightarrow> params list \<Rightarrow> (py_error + json) \<times> params list" where
  "get_json api ps log = (api log ps, log @ [ps])"

definition txlist_params :: "string \<Rightarrow> string \<Rightarrow> params" where
  "txlist_params address api_key =
     [(''module'', JStr ''account''), (''action'', JStr ''txlist''),
      (''address'', JStr address), (''startblock'', JNum 0), (''endblock'', JNum 99999999),
      (''sort'', JStr ''desc''), (''apikey'', JStr api_key)]"

definition fetch_transactions ::
  "explorer \<Rightarrow> string \<Rightarrow> string \<Rightarrow> params list \<Rightarrow> (py_error + json) \<times> params list" where
  "fetch_transactions api address api_key log =
     (case get_json api (txlist_params address api_key) log of
        (response, log') \<Rightarrow>
          (bind_err response (\<lambda>body. py_get body ''result'' (JArr [])), log'))"

definition getsourcecode_params :: "json \<Rightarrow> string \<Rightarrow> params" where
  "getsourcecode_params contract_address api_key =
     [(''module'', JStr ''contract''), (''action'', JStr ''getsourcecode''),
      (''address'', contract_address), (''apikey'', JStr api_key)]"

definition fetch_contract_info ::
  "explorer \<Rightarrow> json \<Rightarrow> string \<Rightarrow> params list \<Rightarrow> (py_error + json) \<times> params list" where
  "fetch_contract_info api contract_address api_key log =
     (case get_json api (getsourcecode_params contract_address api_key) log of
        (response, log') \<Rightarrow>
          (bind_err response (\<lambda>body.
             bind_err (py_get body ''result'' (JArr [])) py_first), log'))"

section \<open>The classifier\<close>

text \<open>
  The dict appended to \<^verbatim>\<open>suspicious\<close>; its keys \<^verbatim>\<open>to\<close>, \<^verbatim>\<open>method\<close>,
  \<^verbatim>\<open>age_days\<close> and \<^verbatim>\<open>tx_hash\<close> are the fields.
\<close>

record finding =
  finding_to :: json
  finding_method :: json
  finding_age_days :: int
  finding_tx_hash :: json

text \<open>\<^verbatim>\<open>not source_code or source_code.strip() == ""\<close>\<close>

definition unverified :: "json \<Rightarrow> py_error + bool" where
  "unverified source_code =
     (if \<not> truthy source_code then Inr True
      else case source_code of JStr s \<Rightarrow> Inr (strip s = []) | _ \<Rightarrow> Inl AttributeError)"

text \<open>
  One iteration of the loop of \<^verbatim>\<open>detect_suspicious_contracts\<close>, on the list
  \<open>suspicious\<close> collected so far. \<open>now\<close> is the value \<^verbatim>\<open>datetime.utcnow()\<close> had at
  the start of the call.
\<close>

definition loop_body ::
  "explorer \<Rightarrow> string \<Rightarrow> datetime \<Rightarrow> int \<Rightarrow> json \<Rightarrow> finding list \<Rightarrow> params list
     \<Rightarrow> (py_error + finding list) \<times> params list" where
  "loop_body api api_key now max_age_days tx suspicious log =
     (case py_item tx ''to'' of
        Inl e \<Rightarrow> (Inl e, log)
      | Inr to \<Rightarrow>
     (case py_get tx ''input'' (JStr []) of
        Inl e \<Rightarrow> (Inl e, log)
      | Inr input_data \<Rightarrow>
          if \<not> truthy to \<or> \<not> truthy input_data \<or> input_data = JStr ''0x''
          then (Inr suspicious, log)
          else
            (case fetch_contract_info api to api_key log of
               (r, log') \<Rightarrow>
                 (bind_err r (\<lambda>contract_info.
                  bind_err (py_get contract_info ''SourceCode'' (JStr [])) (\<lambda>source_code.
                  bind_err (py_get contract_info ''LastUpdated'' (JStr [])) (\<lambda>created.
                  bind_err (unverified source_code) (\<lambda>unv.
                    if unv then
                      bind_err (strptime created) (\<lambda>created_date.
                        let age_days = sub_days now created_date in
                        if age_days \<le> max_age_days then
                          bind_err (py_slice10 input_data) (\<lambda>method.
                          bind_err (py_item tx ''hash'') (\<lambda>h.
                            Inr (suspicious @
                              [\<lparr>finding_to = to, finding_method = method,
                                finding_age_days = age_days, finding_tx_hash = h\<rparr>])))
                        else Inr suspicious)
                    else Inr suspicious)))), log'))))"

fun detect_loop ::
  "explorer \<Rightarrow> string \<Rightarrow> datetime \<Rightarrow> int \<Rightarrow> json list \<Rightarrow> finding list \<Rightarrow> params list
     \<Rightarrow> (py_error + finding list) \<times> params list" where
  "detect_loop api api_key now max_age_days [] suspicious log = (Inr suspicious, log)"
| "detect_loop api api_key now max_age_days (tx # txs) suspicious log =
     (case loop_body api api_key now max_age_days tx suspicious log of
        (Inl e, log') \<Rightarrow> (Inl e, log')
      | (Inr suspicious', log') \<Rightarrow> detect_loop api api_key now max_age_days txs suspicious' log')"

definition detect_suspicious_contracts ::
  "explorer \<Rightarrow> json list \<Rightarrow> string \<Rightarrow> int \<Rightarrow> datetime \<Rightarrow> params list
     \<Rightarrow> (py_error + finding list) \<times> params list" where
  "detect_suspicious_contracts api transactions api_key max_age_days now log =
     detect_loop api api_key now max_age_days transactions [] log"

section \<open>Vocabulary of the statements\<close>

text \<open>
  An explorer that gives the same parsed body to every request; the examples below run
  the program against it.
\<close>

definition explorer_const :: "json \<Rightarrow> explorer" where
  "explorer_const body log ps = Inr body"

text \<open>
  An explorer that answers the n-th request of a run with the n-th body of a list, and
  with a failed request once the list is used up.
\<close>

definition explorer_seq :: "json list \<Rightarrow> explorer" where
  "explorer_seq bodies log ps =
     (if length log < length bodies then Inr (bodies ! length log) else Inl RequestException)"





section \<open>The loop: accumulation and composition\<close>

lemma bind_err_simps:
  "bind_err (Inl e) f = Inl e"
  "bind_err (Inr x) f = f x"
  by (simp_all add: bind_err_def)

lemma bind_err_Inr_iff:
  "bind_err r f = Inr y \<longleftrightarrow> (\<exists>x. r = Inr x \<and> f x = Inr y)"
  by (cases r) (simp_all add: bind_err_def)

lemma loop_body_acc:
  "loop_body api k now mx tx s log =
     (case loop_body api k now mx tx [] log of
        (Inl e, l) \<Rightarrow> (Inl e, l)
      | (Inr new, l) \<Rightarrow> (Inr (s @ new), l))"
  by (simp add: loop_body_def bind_err_def Let_def split: sum.splits prod.splits)

lemma detect_loop_acc:
  "detect_loop api k now mx txs s log =
     (case detect_loop api k now mx txs [] log of
        (Inl e, l) \<Rightarrow> (Inl e, l)
      | (Inr new, l) \<Rightarrow> (Inr (s @ new), l))"
proof (induction txs arbitrary: s log)
  case Nil
  show ?case by simp
next
  case (Cons tx txs)
  obtain r l where b: "loop_body api k now mx tx [] log = (r, l)"
    by (cases "loop_body api k now mx tx [] log")
  show ?case
  proof (cases r)
    case (Inl e)
    with b show ?thesis
      by (simp add: loop_body_acc [of _ _ _ _ _ s])
  next
    case (Inr new)
    have "detect_loop api k now mx (tx # txs) s log = detect_loop api k now mx txs (s @ new) l"
      using b Inr by (simp add: loop_body_acc [of _ _ _ _ _ s])
    moreover have "detect_loop api k now mx (tx # txs) [] log = detect_loop api k now mx txs new l"
      using b Inr by simp
    ultimately show ?thesis
      using Cons.IH [of "s @ new" l] Cons.IH [of new l]
      by (simp split: sum.splits prod.splits)
  qed
qed

lemma detect_loop_append:
  "detect_loop api k now mx (xs @ ys) s log =
     (case detect_loop api k now mx xs s log of
        (Inl e, l) \<Rightarrow> (Inl e, l)
      | (Inr s', l) \<Rightarrow> detect_loop api k now mx ys s' l)"
  by (induction xs arbitrary: s log) (simp_all split: sum.splits prod.splits)

lemma loop_body_one:
  assumes "loop_body api k now mx tx s log = (Inr s', l)"
  shows "s' = s \<or> (\<exists>f. s' = s @ [f])"
  using assms
  by (auto simp: loop_body_def bind_err_def Let_def split: sum.splits prod.splits if_splits)

section \<open>Calendar arithmetic\<close>


























section \<open>Runs of the classifier\<close>

lemma run_step:
  assumes "detect_loop api k now mx pre [] log0 = (Inr before, log)"
  shows "detect_suspicious_contracts api (pre @ tx # post) k mx now log0 =
           (case loop_body api k now mx tx before log of
              (Inl e, l) \<Rightarrow> (Inl e, l)
            | (Inr s, l) \<Rightarrow> detect_loop api k now mx post s l)"
  using assms by (simp add: detect_suspicious_contracts_def detect_loop_append)

lemma run_abort:
  assumes "detect_loop api k now mx pre [] log0 = (Inr before, log)"
    and "loop_body api k now mx tx before log = (Inl e, l)"
  shows "detect_suspicious_contracts api (pre @ tx # post) k mx now log0 = (Inl e, l)"
  using assms(2) by (simp add: run_step [OF assms(1)])

lemma run_continue:
  assumes "detect_loop api k now mx pre [] log0 = (Inr before, log)"
    and "loop_body api k now mx tx before log = (Inr (before @ new), l)"
    and "detect_loop api k now mx post [] l = (Inr after, l')"
  shows "detect_suspicious_contracts api (pre @ tx # post) k mx now log0
           = (Inr (before @ new @ after), l')"
  using assms(2,3) detect_loop_acc [of api k now mx post "before @ new" l]
  by (simp add: run_step [OF assms(1)])

lemma detect_loop_length:
  assumes "detect_loop api k now mx txs s log = (Inr out, l)"
  shows "length out \<le> length s + length txs"
  using assms
proof (induction txs arbitrary: s log)
  case Nil
  then show ?case by simp
next
  case (Cons tx txs)
  obtain r l1 where b: "loop_body api k now mx tx s log = (r, l1)"
    by (cases "loop_body api k now mx tx s log")
  show ?case
  proof (cases r)
    case (Inl e)
    with b Cons.prems show ?thesis by simp
  next
    case (Inr s1)
    with b Cons.prems have "detect_loop api k now mx txs s1 l1 = (Inr out, l)" by simp
    from Cons.IH [OF this] have "length out \<le> length s1 + length txs" .
    moreover have "length s1 \<le> length s + 1"
      using loop_body_one [of api k now mx tx s log s1 l1] b Inr by auto
    ultimately show ?thesis by simp
  qed
qed

lemmas eval_defs =
  detect_suspicious_contracts_def loop_body_def fetch_contract_info_def fetch_transactions_def
  get_json_def getsourcecode_params_def txlist_params_def explorer_const_def explorer_seq_def
  bind_err_def
  unverified_def strip_def py_isspace_def strptime_def strptime_match_def re_Y_def re_m_def
  re_d_def re_lit_def re_two_def re_one_def is_digit_def digit_val_def days_in_month_def
  is_leap_def sub_days_def toordinal_def days_before_year_def days_before_month_def

lemma loop_body_skip:
  assumes "tx = JObj kvs" "map_of kvs ''to'' = Some recipient"
    and "\<not> truthy recipient \<or> map_of kvs ''input'' = None
           \<or> (\<exists>inp. map_of kvs ''input'' = Some inp \<and> (\<not> truthy inp \<or> inp = JStr ''0x''))"
  shows "loop_body api k now mx tx s log = (Inr s, log)"
  using assms by (auto simp: loop_body_def)

lemma loop_body_candidate:
  assumes "tx = JObj kvs" "map_of kvs ''to'' = Some recipient" "truthy recipient"
    and "map_of kvs ''input'' = Some inp" "truthy inp" "inp \<noteq> JStr ''0x''"
    and "fetch_contract_info api recipient k log = (Inr info, l)"
    and "py_get info ''SourceCode'' (JStr []) = Inr src"
    and "py_get info ''LastUpdated'' (JStr []) = Inr created"
  shows "loop_body api k now mx tx s log =
           (bind_err (unverified src) (\<lambda>unv.
              if unv then
                bind_err (strptime created) (\<lambda>created_date.
                  if sub_days now created_date \<le> mx then
                    bind_err (py_slice10 inp) (\<lambda>m.
                    bind_err (py_item tx ''hash'') (\<lambda>h.
                      Inr (s @ [\<lparr>finding_to = recipient, finding_method = m,
                                 finding_age_days = sub_days now created_date,
                                 finding_tx_hash = h\<rparr>])))
                  else Inr s)
              else Inr s), l)"
  unfolding loop_body_def Let_def using assms by (simp add: bind_err_simps)

lemma unverified_blank: "strip src = [] \<Longrightarrow> unverified (JStr src) = Inr True"
  by (simp add: unverified_def)

lemma loop_body_unverified:
  assumes "tx = JObj kvs" "map_of kvs ''to'' = Some recipient" "truthy recipient"
    and "map_of kvs ''input'' = Some (JStr inp)" "inp \<noteq> []" "inp \<noteq> ''0x''"
    and "map_of kvs ''hash'' = Some h"
    and "fetch_contract_info api recipient k log = (Inr info, l)"
    and "py_get info ''SourceCode'' (JStr []) = Inr (JStr src)" "strip src = []"
    and "py_get info ''LastUpdated'' (JStr []) = Inr created"
    and "strptime created = Inr created_date"
  shows "loop_body api k now mx tx s log =
           (Inr (s @ (if sub_days now created_date \<le> mx
                      then [\<lparr>finding_to = recipient, finding_method = JStr (take 10 inp),
                              finding_age_days = sub_days now created_date,
                              finding_tx_hash = h\<rparr>]
                      else [])), l)"
proof -
  have "truthy (JStr inp)" "JStr inp \<noteq> JStr ''0x''" using assms(5,6) by simp_all
  from loop_body_candidate [OF assms(1-4) this assms(8,9,11)]
  show ?thesis
    using assms(1,7,10,12) by (simp add: bind_err_simps unverified_blank)
qed

lemma py_get_Inr_obj:
  assumes "py_get v k d = Inr x"
  obtains kvs where "v = JObj kvs"
  using assms by (cases v) simp_all

lemma unverified_code: "strip src \<noteq> [] \<Longrightarrow> unverified (JStr src) = Inr False"
  by (auto simp: unverified_def strip_def)

lemma loop_body_origin:
  assumes "loop_body api k now mx tx s log = (Inr s', l)"
  shows "s' = s \<or> (\<exists>f. s' = s @ [f] \<and> py_item tx ''to'' = Inr (finding_to f)
           \<and> py_item tx ''hash'' = Inr (finding_tx_hash f)
           \<and> bind_err (py_get tx ''input'' (JStr [])) py_slice10 = Inr (finding_method f))"
  using assms
  by (auto simp: loop_body_def bind_err_def Let_def split: sum.splits prod.splits if_splits)

lemma detect_loop_origin:
  assumes "detect_loop api k now mx txs s log = (Inr out, l)"
  shows "\<exists>ys new. out = s @ new \<and> subseq ys txs
           \<and> list_all2 (\<lambda>tx f. py_item tx ''to'' = Inr (finding_to f)
                \<and> py_item tx ''hash'' = Inr (finding_tx_hash f)
                \<and> bind_err (py_get tx ''input'' (JStr [])) py_slice10 = Inr (finding_method f))
                ys new"
  using assms
proof (induction txs arbitrary: s log)
  case Nil
  then show ?case by simp
next
  case (Cons tx txs)
  let ?R = "\<lambda>tx f. py_item tx ''to'' = Inr (finding_to f)
                \<and> py_item tx ''hash'' = Inr (finding_tx_hash f)
                \<and> bind_err (py_get tx ''input'' (JStr [])) py_slice10 = Inr (finding_method f)"
  obtain r l1 where b: "loop_body api k now mx tx s log = (r, l1)"
    by (cases "loop_body api k now mx tx s log")
  show ?case
  proof (cases r)
    case (Inl e)
    with b Cons.prems show ?thesis by simp
  next
    case (Inr s1)
    with b Cons.prems have "detect_loop api k now mx txs s1 l1 = (Inr out, l)" by simp
    from Cons.IH [OF this] obtain ys new
      where out: "out = s1 @ new" and ys: "subseq ys txs" and all: "list_all2 ?R ys new"
      by blast
    from loop_body_origin [of api k now mx tx s log s1 l1] b Inr
    consider "s1 = s" | f where "s1 = s @ [f]" "?R tx f" by auto
    then show ?thesis
    proof cases
      case 1
      have "subseq ys (tx # txs)" using ys by (rule list_emb_Cons)
      with out 1 all show ?thesis by blast
    next
      case 2
      have "out = s @ (f # new)" using out 2 by simp
      moreover have "subseq (tx # ys) (tx # txs)" using ys by simp
      moreover have "list_all2 ?R (tx # ys) (f # new)" using all 2 by simp
      ultimately show ?thesis by blast
    qed
  qed
qed

section \<open>What \<^verbatim>\<open>strptime\<close> accepts\<close>













section \<open>The claims\<close>

text \<open>
  Claim C1. A candidate transaction (recipient true, payload a string that is neither
  empty nor \<^verbatim>\<open>0x\<close>) whose contract has a source that is empty after trimming
  yields exactly one finding when the computed age is at most \<open>max_age_days\<close> and
  none when it is larger. The finding carries the recipient, the first ten characters
  of the payload, the age and the transaction hash; in the result of the run it stands
  between the findings of the transactions before it and of those after it.
\<close>

theorem C1_unverified_flagged_by_age:
  assumes "detect_loop api api_key now max_age_days pre [] log0 = (Inr before, log)"
    and "tx = JObj kvs" "map_of kvs ''to'' = Some recipient" "truthy recipient"
    and "map_of kvs ''input'' = Some (JStr input_data)" "input_data \<noteq> []"
      "input_data \<noteq> ''0x''"
    and "map_of kvs ''hash'' = Some h"
    and "fetch_contract_info api recipient api_key log = (Inr contract_info, log1)"
    and "py_get contract_info ''SourceCode'' (JStr []) = Inr (JStr source_code)"
      "strip source_code = []"
    and "py_get contract_info ''LastUpdated'' (JStr []) = Inr created"
      "strptime created = Inr created_date"
    and "detect_loop api api_key now max_age_days post [] log1 = (Inr after, log2)"
  shows "detect_suspicious_contracts api (pre @ tx # post) api_key max_age_days now log0 =
           (Inr (before
                 @ (if sub_days now created_date \<le> max_age_days
                    then [\<lparr>finding_to = recipient, finding_method = JStr (take 10 input_data),
                            finding_age_days = sub_days now created_date,
                            finding_tx_hash = h\<rparr>]
                    else [])
                 @ after), log2)"
  by (rule run_continue [OF assms(1) loop_body_unverified [OF assms(2-13)] assms(14)])

text \<open>
  Scenario C of the specification, after a plain transfer: the contract was updated
  five days before \<open>now\<close> and the threshold is seven days.
\<close>

theorem C1_witness:
  "detect_suspicious_contracts
     (explorer_const (JObj [(''status'', JStr ''1''), (''result'',
        JArr [JObj [(''SourceCode'', JStr '' ''), (''LastUpdated'', JStr ''2024-01-05'')]])]))
     ([JObj [(''to'', JStr ''0xAAA''), (''input'', JStr ''0x''), (''hash'', JStr ''0xh0'')]]
        @ JObj [(''to'', JStr ''0xAAA''), (''input'', JStr ''0xa9059cbb0000000000''),
                (''hash'', JStr ''0xh1'')] # [])
     ''KEY'' 7
     \<lparr>year = 2024, month = 1, day = 10, hour = 12, minute = 30, second = 0, microsecond = 5\<rparr>
     []
   = (Inr [\<lparr>finding_to = JStr ''0xAAA'', finding_method = JStr ''0xa9059cbb'',
             finding_age_days = 5, finding_tx_hash = JStr ''0xh1''\<rparr>],
      [getsourcecode_params (JStr ''0xAAA'') ''KEY''])"
proof -
  let ?info = "JObj [(''SourceCode'', JStr '' ''), (''LastUpdated'', JStr ''2024-01-05'')]"
  let ?api = "explorer_const (JObj [(''status'', JStr ''1''), (''result'', JArr [?info])])"
  let ?now = "\<lparr>year = 2024, month = 1, day = 10, hour = 12, minute = 30, second = 0,
                microsecond = 5\<rparr>"
  let ?kvs = "[(''to'', JStr ''0xAAA''), (''input'', JStr ''0xa9059cbb0000000000''),
               (''hash'', JStr ''0xh1'')]"
  let ?cd = "\<lparr>year = 2024, month = 1, day = 5, hour = 0, minute = 0, second = 0,
               microsecond = 0\<rparr>"
  have pre: "detect_loop ?api ''KEY'' ?now 7
      [JObj [(''to'', JStr ''0xAAA''), (''input'', JStr ''0x''), (''hash'', JStr ''0xh0'')]] [] []
      = (Inr [], [])"
    by (simp add: loop_body_def)
  have f: "fetch_contract_info ?api (JStr ''0xAAA'') ''KEY'' []
      = (Inr ?info, [getsourcecode_params (JStr ''0xAAA'') ''KEY''])"
    by (simp add: fetch_contract_info_def get_json_def explorer_const_def bind_err_def)
  have d: "strptime (JStr ''2024-01-05'') = Inr ?cd"
    by (simp add: eval_defs)
  have age: "sub_days ?now ?cd = 5"
    by (simp add: eval_defs)
  have post: "detect_loop ?api ''KEY'' ?now 7 []  []
      [getsourcecode_params (JStr ''0xAAA'') ''KEY''] =
      (Inr [], [getsourcecode_params (JStr ''0xAAA'') ''KEY''])"
    by simp
  have "strip '' '' = []" by (simp add: strip_def py_isspace_def)
  from C1_unverified_flagged_by_age [OF pre refl, of ?kvs "JStr ''0xAAA''"
      "''0xa9059cbb0000000000''" "JStr ''0xh1''", OF _ _ _ _ _ _ f _ this _ d post]
  show ?thesis by (simp add: age)
qed

text \<open>
  Claim C2, as amended. A transaction that has the key \<^verbatim>\<open>to\<close>, and whose recipient
  is null or empty, or whose payload is absent, empty or exactly \<^verbatim>\<open>0x\<close>, causes no
  request and adds no finding: the iteration returns the findings and the request log as
  it received them, and the run goes on with the next transaction.
\<close>

theorem C2_skipped_without_lookup:
  assumes "detect_loop api api_key now max_age_days pre [] log0 = (Inr before, log)"
    and "tx = JObj kvs" "map_of kvs ''to'' = Some recipient"
    and "recipient = JNull \<or> recipient = JStr [] \<or> map_of kvs ''input'' = None
           \<or> map_of kvs ''input'' = Some (JStr []) \<or> map_of kvs ''input'' = Some (JStr ''0x'')"
    and "detect_loop api api_key now max_age_days post [] log = (Inr after, log1)"
  shows "loop_body api api_key now max_age_days tx before log = (Inr before, log)
         \<and> detect_suspicious_contracts api (pre @ tx # post) api_key max_age_days now log0
           = (Inr (before @ after), log1)"
proof -
  have "\<not> truthy recipient \<or> map_of kvs ''input'' = None
          \<or> (\<exists>inp. map_of kvs ''input'' = Some inp \<and> (\<not> truthy inp \<or> inp = JStr ''0x''))"
    using assms(4) by auto
  from loop_body_skip [OF assms(2,3) this]
  have b: "loop_body api api_key now max_age_days tx before log = (Inr (before @ []), log)"
    by simp
  show ?thesis
    using b run_continue [OF assms(1) b assms(5)] by simp
qed

text \<open>
  A contract creation (empty recipient) between two flagged transactions, and a plain
  transfer.
\<close>

theorem C2_witness:
  "detect_suspicious_contracts
     (explorer_const (JObj [(''status'', JStr ''1''), (''result'',
        JArr [JObj [(''SourceCode'', JStr []), (''LastUpdated'', JStr ''2024-01-05'')]])]))
     ([JObj [(''to'', JStr ''0xAAA''), (''input'', JStr ''0xa9059cbb00''), (''hash'', JStr ''0xh1'')]]
        @ JObj [(''to'', JStr []), (''input'', JStr ''0x60806040''), (''hash'', JStr ''0xh2'')]
        # [JObj [(''to'', JStr ''0xBBB''), (''input'', JStr ''0x095ea7b300''),
                 (''hash'', JStr ''0xh3'')]])
     ''KEY'' 7
     \<lparr>year = 2024, month = 1, day = 10, hour = 0, minute = 0, second = 0, microsecond = 0\<rparr> []
   = (Inr ([\<lparr>finding_to = JStr ''0xAAA'', finding_method = JStr ''0xa9059cbb'',
              finding_age_days = 5, finding_tx_hash = JStr ''0xh1''\<rparr>]
           @ [\<lparr>finding_to = JStr ''0xBBB'', finding_method = JStr ''0x095ea7b3'',
              finding_age_days = 5, finding_tx_hash = JStr ''0xh3''\<rparr>]),
      [getsourcecode_params (JStr ''0xAAA'') ''KEY'', getsourcecode_params (JStr ''0xBBB'') ''KEY''])
   \<and> loop_body (explorer_const JNull) ''KEY''
     \<lparr>year = 2024, month = 1, day = 10, hour = 0, minute = 0, second = 0, microsecond = 0\<rparr> 7
     (JObj [(''to'', JStr ''0xAAA''), (''input'', JStr ''0x''), (''hash'', JStr ''0xh1'')])
     [] [] = (Inr [], [])"
proof -
  let ?api = "explorer_const (JObj [(''status'', JStr ''1''), (''result'',
        JArr [JObj [(''SourceCode'', JStr []), (''LastUpdated'', JStr ''2024-01-05'')]])])"
  let ?now = "\<lparr>year = 2024, month = 1, day = 10, hour = 0, minute = 0, second = 0,
                microsecond = 0\<rparr>"
  let ?p1 = "getsourcecode_params (JStr ''0xAAA'') ''KEY''"
  let ?p2 = "getsourcecode_params (JStr ''0xBBB'') ''KEY''"
  let ?f1 = "\<lparr>finding_to = JStr ''0xAAA'', finding_method = JStr ''0xa9059cbb'',
              finding_age_days = 5, finding_tx_hash = JStr ''0xh1''\<rparr>"
  let ?f3 = "\<lparr>finding_to = JStr ''0xBBB'', finding_method = JStr ''0x095ea7b3'',
              finding_age_days = 5, finding_tx_hash = JStr ''0xh3''\<rparr>"
  have pre: "detect_loop ?api ''KEY'' ?now 7
      [JObj [(''to'', JStr ''0xAAA''), (''input'', JStr ''0xa9059cbb00''), (''hash'', JStr ''0xh1'')]]
      [] [] = (Inr [?f1], [?p1])"
    by (simp add: eval_defs)
  have post: "detect_loop ?api ''KEY'' ?now 7
      [JObj [(''to'', JStr ''0xBBB''), (''input'', JStr ''0x095ea7b300''), (''hash'', JStr ''0xh3'')]]
      [] [?p1] = (Inr [?f3], [?p1, ?p2])"
    by (simp add: eval_defs)
  have e: "detect_loop (explorer_const JNull) ''KEY'' ?now 7 [] [] [] = (Inr [], [])"
    by simp
  from C2_skipped_without_lookup [OF pre refl, of
      "[(''to'', JStr []), (''input'', JStr ''0x60806040''), (''hash'', JStr ''0xh2'')]"
      "JStr []", OF _ _ post]
    C2_skipped_without_lookup [OF e refl, of
      "[(''to'', JStr ''0xAAA''), (''input'', JStr ''0x''), (''hash'', JStr ''0xh1'')]"
      "JStr ''0xAAA''", OF _ _ e]
  show ?thesis by simp
qed

text \<open>
  Claim C2 as stated fails for an absent recipient: \<^verbatim>\<open>tx["to"]\<close> raises
  \<^verbatim>\<open>KeyError\<close> before the test, the run ends, the finding of the first transaction
  is lost and the third transaction is never examined.
\<close>

theorem C2_counterexample:
  "detect_suspicious_contracts
     (explorer_const (JObj [(''status'', JStr ''1''), (''result'',
        JArr [JObj [(''SourceCode'', JStr []), (''LastUpdated'', JStr ''2024-01-05'')]])]))
     [JObj [(''to'', JStr ''0xAAA''), (''input'', JStr ''0xa9059cbb00''), (''hash'', JStr ''0xh1'')],
      JObj [(''input'', JStr ''0x''), (''hash'', JStr ''0xh2'')],
      JObj [(''to'', JStr ''0xBBB''), (''input'', JStr ''0x095ea7b300''), (''hash'', JStr ''0xh3'')]]
     ''KEY'' 7
     \<lparr>year = 2024, month = 1, day = 10, hour = 0, minute = 0, second = 0, microsecond = 0\<rparr> []
   = (Inl KeyError, [getsourcecode_params (JStr ''0xAAA'') ''KEY''])"
  by (simp add: eval_defs)

text \<open>
  Claim C3. A candidate transaction whose contract has a source that is not empty after
  trimming adds no finding, whatever \<open>now\<close>, \<open>max_age_days\<close> and the last-updated
  field are: the result of the run is the findings before it followed by those after.
\<close>

theorem C3_verified_never_flagged:
  assumes "detect_loop api api_key now max_age_days pre [] log0 = (Inr before, log)"
    and "tx = JObj kvs" "map_of kvs ''to'' = Some recipient" "truthy recipient"
    and "map_of kvs ''input'' = Some input_data" "truthy input_data"
      "input_data \<noteq> JStr ''0x''"
    and "fetch_contract_info api recipient api_key log = (Inr contract_info, log1)"
    and "py_get contract_info ''SourceCode'' (JStr []) = Inr (JStr source_code)"
      "strip source_code \<noteq> []"
    and "detect_loop api api_key now max_age_days post [] log1 = (Inr after, log2)"
  shows "detect_suspicious_contracts api (pre @ tx # post) api_key max_age_days now log0
           = (Inr (before @ after), log2)"
proof -
  from assms(9) obtain info where "contract_info = JObj info"
    by (rule py_get_Inr_obj)
  then have "py_get contract_info ''LastUpdated'' (JStr [])
      = Inr (case map_of info ''LastUpdated'' of None \<Rightarrow> JStr [] | Some v \<Rightarrow> v)"
    by simp
  from loop_body_candidate [OF assms(2-9) this]
  have "loop_body api api_key now max_age_days tx before log = (Inr (before @ []), log1)"
    using assms(10) by (simp add: bind_err_simps unverified_code)
  from run_continue [OF assms(1) this assms(11)] show ?thesis by simp
qed

text \<open>
  Scenario E of the specification.
\<close>

theorem C3_witness:
  "detect_suspicious_contracts
     (explorer_const (JObj [(''status'', JStr ''1''), (''result'',
        JArr [JObj [(''SourceCode'', JStr ''pragma solidity ^0.8.0; contract X {}''),
                    (''LastUpdated'', JStr ''2024-01-05'')]])]))
     ([] @ JObj [(''to'', JStr ''0xAAA''), (''input'', JStr ''0xa9059cbb0000000000''),
                 (''hash'', JStr ''0xh1'')] # [])
     ''KEY'' 7
     \<lparr>year = 2024, month = 1, day = 10, hour = 12, minute = 30, second = 0, microsecond = 5\<rparr>
     []
   = (Inr [], [getsourcecode_params (JStr ''0xAAA'') ''KEY''])"
proof -
  let ?info = "JObj [(''SourceCode'', JStr ''pragma solidity ^0.8.0; contract X {}''),
                     (''LastUpdated'', JStr ''2024-01-05'')]"
  let ?api = "explorer_const (JObj [(''status'', JStr ''1''), (''result'', JArr [?info])])"
  let ?now = "\<lparr>year = 2024, month = 1, day = 10, hour = 12, minute = 30, second = 0,
                microsecond = 5\<rparr>"
  let ?kvs = "[(''to'', JStr ''0xAAA''), (''input'', JStr ''0xa9059cbb0000000000''),
               (''hash'', JStr ''0xh1'')]"
  have pre: "detect_loop ?api ''KEY'' ?now 7 [] [] [] = (Inr [], [])"
    by simp
  have f: "fetch_contract_info ?api (JStr ''0xAAA'') ''KEY'' []
      = (Inr ?info, [getsourcecode_params (JStr ''0xAAA'') ''KEY''])"
    by (simp add: fetch_contract_info_def get_json_def explorer_const_def bind_err_def)
  have s: "strip ''pragma solidity ^0.8.0; contract X {}'' \<noteq> []"
    by (simp add: strip_def py_isspace_def)
  have post: "detect_loop ?api ''KEY'' ?now 7 [] []
      [getsourcecode_params (JStr ''0xAAA'') ''KEY''] =
      (Inr [], [getsourcecode_params (JStr ''0xAAA'') ''KEY''])"
    by simp
  from C3_verified_never_flagged [OF pre refl, of ?kvs "JStr ''0xAAA''"
      "JStr ''0xa9059cbb0000000000''", OF _ _ _ _ _ f _ s post]
  show ?thesis by simp
qed

text \<open>
  Claim C4, as amended. When the body of the response is an object,
  \<^verbatim>\<open>fetch_transactions\<close> returns the empty list if the field \<^verbatim>\<open>result\<close> is
  missing and the field itself, whatever it is, if it is present.
\<close>

theorem C4_result_returned_as_is:
  assumes "api log (txlist_params address api_key) = Inr (JObj body)"
  shows "(map_of body ''result'' = None \<longrightarrow>
            fetch_transactions api address api_key log
              = (Inr (JArr []), log @ [txlist_params address api_key]))
         \<and> (\<forall>v. map_of body ''result'' = Some v \<longrightarrow>
            fetch_transactions api address api_key log
              = (Inr v, log @ [txlist_params address api_key]))"
  using assms by (simp add: fetch_transactions_def get_json_def bind_err_simps)

text \<open>
  A response without \<^verbatim>\<open>result\<close>, and the explorer's answer for an address that
  has no transactions.
\<close>

theorem C4_witness:
  "fetch_transactions
     (explorer_const (JObj [(''status'', JStr ''0''), (''message'', JStr ''NOTOK'')]))
     ''0xabc'' ''KEY'' []
   = (Inr (JArr []), [] @ [txlist_params ''0xabc'' ''KEY''])
   \<and> fetch_transactions
     (explorer_const (JObj [(''status'', JStr ''0''), (''message'', JStr ''No transactions found''),
                            (''result'', JArr [])]))
     ''0xabc'' ''KEY'' []
   = (Inr (JArr []), [] @ [txlist_params ''0xabc'' ''KEY''])"
  using C4_result_returned_as_is [of
      "explorer_const (JObj [(''status'', JStr ''0''), (''message'', JStr ''NOTOK'')])"
      "[]" "''0xabc''" "''KEY''" "[(''status'', JStr ''0''), (''message'', JStr ''NOTOK'')]"]
    C4_result_returned_as_is [of
      "explorer_const (JObj [(''status'', JStr ''0''),
         (''message'', JStr ''No transactions found''), (''result'', JArr [])])"
      "[]" "''0xabc''" "''KEY''" "[(''status'', JStr ''0''),
         (''message'', JStr ''No transactions found''), (''result'', JArr [])]"]
  by (simp add: explorer_const_def)

text \<open>
  Claim C4 as stated fails: the explorer reports an error with a message in
  \<^verbatim>\<open>result\<close>, and the message is returned instead of an empty sequence.
\<close>

theorem C4_counterexample:
  "fetch_transactions
     (explorer_const (JObj [(''status'', JStr ''0''), (''message'', JStr ''NOTOK''),
                            (''result'', JStr ''Invalid API Key'')]))
     ''0xabc'' ''KEY'' []
   = (Inr (JStr ''Invalid API Key''), [txlist_params ''0xabc'' ''KEY''])
   \<and> fst (fetch_transactions
     (explorer_const (JObj [(''status'', JStr ''0''), (''message'', JStr ''NOTOK''),
                            (''result'', JStr ''Invalid API Key'')]))
     ''0xabc'' ''KEY'' []) \<noteq> Inr (JArr [])"
  by (simp add: fetch_transactions_def get_json_def explorer_const_def bind_err_simps)

text \<open>
  Claim C5. When the explorer answers the source-code request with an empty
  \<^verbatim>\<open>result\<close> list, \<^verbatim>\<open>fetch_contract_info\<close> raises \<^verbatim>\<open>IndexError\<close>; when this
  happens for a candidate transaction the whole run ends with that error, whatever was
  found before.
\<close>

theorem C5_empty_result_aborts:
  assumes "api log (getsourcecode_params recipient api_key) = Inr (JObj body)"
    and "map_of body ''result'' = Some (JArr [])"
  shows "fetch_contract_info api recipient api_key log
           = (Inl IndexError, log @ [getsourcecode_params recipient api_key])
         \<and> (detect_loop api api_key now max_age_days pre [] log0 = (Inr before, log)
              \<and> tx = JObj kvs \<and> map_of kvs ''to'' = Some recipient \<and> truthy recipient
              \<and> map_of kvs ''input'' = Some input_data \<and> truthy input_data
              \<and> input_data \<noteq> JStr ''0x''
            \<longrightarrow> detect_suspicious_contracts api (pre @ tx # post) api_key max_age_days now log0
                  = (Inl IndexError, log @ [getsourcecode_params recipient api_key]))"
proof -
  have f: "fetch_contract_info api recipient api_key log
      = (Inl IndexError, log @ [getsourcecode_params recipient api_key])"
    using assms by (simp add: fetch_contract_info_def get_json_def bind_err_simps)
  have "detect_suspicious_contracts api (pre @ tx # post) api_key max_age_days now log0
      = (Inl IndexError, log @ [getsourcecode_params recipient api_key])"
    if pre: "detect_loop api api_key now max_age_days pre [] log0 = (Inr before, log)"
      and tx: "tx = JObj kvs" "map_of kvs ''to'' = Some recipient" "truthy recipient"
        "map_of kvs ''input'' = Some input_data" "truthy input_data"
        "input_data \<noteq> JStr ''0x''"
  proof -
    have "loop_body api api_key now max_age_days tx before log
        = (Inl IndexError, log @ [getsourcecode_params recipient api_key])"
      using tx f by (simp add: loop_body_def bind_err_simps)
    from run_abort [OF pre this] show ?thesis .
  qed
  with f show ?thesis by blast
qed

text \<open>
  Scenario F of the specification, after a transaction that was flagged: its finding
  is lost.
\<close>

theorem C5_witness:
  "fetch_contract_info
     (explorer_seq
        [JObj [(''status'', JStr ''1''), (''result'',
           JArr [JObj [(''SourceCode'', JStr []), (''LastUpdated'', JStr ''2024-01-05'')]])],
         JObj [(''status'', JStr ''0''), (''result'', JArr [])]])
     (JStr ''0xBBB'') ''KEY'' [getsourcecode_params (JStr ''0xAAA'') ''KEY'']
   = (Inl IndexError,
      [getsourcecode_params (JStr ''0xAAA'') ''KEY''] @ [getsourcecode_params (JStr ''0xBBB'') ''KEY''])
   \<and> detect_suspicious_contracts
     (explorer_seq
        [JObj [(''status'', JStr ''1''), (''result'',
           JArr [JObj [(''SourceCode'', JStr []), (''LastUpdated'', JStr ''2024-01-05'')]])],
         JObj [(''status'', JStr ''0''), (''result'', JArr [])]])
     ([JObj [(''to'', JStr ''0xAAA''), (''input'', JStr ''0xa9059cbb00''), (''hash'', JStr ''0xh1'')]]
        @ JObj [(''to'', JStr ''0xBBB''), (''input'', JStr ''0xa9059cbb00''),
                (''hash'', JStr ''0xh2'')] # [])
     ''KEY'' 7
     \<lparr>year = 2024, month = 1, day = 10, hour = 0, minute = 0, second = 0, microsecond = 0\<rparr> []
   = (Inl IndexError,
      [getsourcecode_params (JStr ''0xAAA'') ''KEY''] @ [getsourcecode_params (JStr ''0xBBB'') ''KEY''])"
proof -
  let ?api = "explorer_seq
        [JObj [(''status'', JStr ''1''), (''result'',
           JArr [JObj [(''SourceCode'', JStr []), (''LastUpdated'', JStr ''2024-01-05'')]])],
         JObj [(''status'', JStr ''0''), (''result'', JArr [])]]"
  let ?now = "\<lparr>year = 2024, month = 1, day = 10, hour = 0, minute = 0, second = 0,
                microsecond = 0\<rparr>"
  let ?p1 = "getsourcecode_params (JStr ''0xAAA'') ''KEY''"
  have a: "?api [?p1] (getsourcecode_params (JStr ''0xBBB'') ''KEY'')
      = Inr (JObj [(''status'', JStr ''0''), (''result'', JArr [])])"
    by (simp add: explorer_seq_def)
  have pre: "detect_loop ?api ''KEY'' ?now 7
      [JObj [(''to'', JStr ''0xAAA''), (''input'', JStr ''0xa9059cbb00''), (''hash'', JStr ''0xh1'')]]
      [] []
      = (Inr [\<lparr>finding_to = JStr ''0xAAA'', finding_method = JStr ''0xa9059cbb'',
                finding_age_days = 5, finding_tx_hash = JStr ''0xh1''\<rparr>], [?p1])"
    by (simp add: eval_defs)
  have r: "map_of [(''status'', JStr ''0''), (''result'', JArr [])] ''result'' = Some (JArr [])"
    by simp
  from C5_empty_result_aborts [where api = ?api and log = "[?p1]"
      and recipient = "JStr ''0xBBB''" and api_key = "''KEY''" and now = ?now
      and max_age_days = 7 and ?log0.0 = "[]" and post = "[]"
      and kvs = "[(''to'', JStr ''0xBBB''), (''input'', JStr ''0xa9059cbb00''),
                  (''hash'', JStr ''0xh2'')]"
      and input_data = "JStr ''0xa9059cbb00''"
      and pre = "[JObj [(''to'', JStr ''0xAAA''), (''input'', JStr ''0xa9059cbb00''),
                        (''hash'', JStr ''0xh1'')]]"
      and before = "[\<lparr>finding_to = JStr ''0xAAA'', finding_method = JStr ''0xa9059cbb'',
                finding_age_days = 5, finding_tx_hash = JStr ''0xh1''\<rparr>]"
      and tx = "JObj [(''to'', JStr ''0xBBB''), (''input'', JStr ''0xa9059cbb00''),
                      (''hash'', JStr ''0xh2'')]", OF a r] pre
  show ?thesis by simp
qed




text \<open>
  Claim C7. The findings of a run that returns are, position by position, built from a
  subsequence of the input transactions (recipient, selector and hash are those of the
  transaction); and wherever the input is cut in two, the findings are those of the
  first part followed by those of the second part.
\<close>

theorem C7_findings_in_input_order:
  assumes "detect_suspicious_contracts api transactions api_key max_age_days now log
             = (Inr out, log')"
  shows "(\<exists>ys. subseq ys transactions
            \<and> list_all2 (\<lambda>tx f. py_item tx ''to'' = Inr (finding_to f)
                 \<and> py_item tx ''hash'' = Inr (finding_tx_hash f)
                 \<and> bind_err (py_get tx ''input'' (JStr [])) py_slice10
                     = Inr (finding_method f)) ys out)
         \<and> (\<forall>xs zs. transactions = xs @ zs \<longrightarrow>
              (\<exists>out1 out2 log1.
                 detect_suspicious_contracts api xs api_key max_age_days now log
                   = (Inr out1, log1)
                 \<and> detect_suspicious_contracts api zs api_key max_age_days now log1
                   = (Inr out2, log')
                 \<and> out = out1 @ out2))"
proof (intro conjI allI impI)
  from detect_loop_origin [of api api_key now max_age_days transactions "[]" log out log']
    assms
  show "\<exists>ys. subseq ys transactions
            \<and> list_all2 (\<lambda>tx f. py_item tx ''to'' = Inr (finding_to f)
                 \<and> py_item tx ''hash'' = Inr (finding_tx_hash f)
                 \<and> bind_err (py_get tx ''input'' (JStr [])) py_slice10
                     = Inr (finding_method f)) ys out"
    by (simp add: detect_suspicious_contracts_def)
next
  fix xs zs
  assume split: "transactions = xs @ zs"
  obtain r1 log1 where x: "detect_loop api api_key now max_age_days xs [] log = (r1, log1)"
    by (cases "detect_loop api api_key now max_age_days xs [] log")
  have whole: "detect_loop api api_key now max_age_days (xs @ zs) [] log = (Inr out, log')"
    using assms split by (simp add: detect_suspicious_contracts_def)
  show "\<exists>out1 out2 log1.
          detect_suspicious_contracts api xs api_key max_age_days now log = (Inr out1, log1)
          \<and> detect_suspicious_contracts api zs api_key max_age_days now log1 = (Inr out2, log')
          \<and> out = out1 @ out2"
  proof (cases r1)
    case (Inl e)
    with x whole show ?thesis by (simp add: detect_loop_append)
  next
    case (Inr out1)
    with x whole have z: "detect_loop api api_key now max_age_days zs out1 log1 = (Inr out, log')"
      by (simp add: detect_loop_append)
    obtain r2 l2 where z0: "detect_loop api api_key now max_age_days zs [] log1 = (r2, l2)"
      by (cases "detect_loop api api_key now max_age_days zs [] log1")
    from z z0 detect_loop_acc [of api api_key now max_age_days zs out1 log1]
    obtain out2 where "r2 = Inr out2" "l2 = log'" "out = out1 @ out2"
      by (cases r2) auto
    with x Inr z0 show ?thesis
      by (simp add: detect_suspicious_contracts_def)
  qed
qed

text \<open>
  Three transactions, the second one a plain transfer.
\<close>

theorem C7_witness:
  "detect_suspicious_contracts
     (explorer_seq
        [JObj [(''status'', JStr ''1''), (''result'',
           JArr [JObj [(''SourceCode'', JStr []), (''LastUpdated'', JStr ''2024-01-05'')]])],
         JObj [(''status'', JStr ''1''), (''result'',
           JArr [JObj [(''SourceCode'', JStr []), (''LastUpdated'', JStr ''2024-01-08'')]])]])
     [JObj [(''to'', JStr ''0xAAA''), (''input'', JStr ''0xa9059cbb00''), (''hash'', JStr ''0xh1'')],
      JObj [(''to'', JStr ''0xCCC''), (''input'', JStr ''0x''), (''hash'', JStr ''0xh2'')],
      JObj [(''to'', JStr ''0xBBB''), (''input'', JStr ''0x095ea7b300''), (''hash'', JStr ''0xh3'')]]
     ''KEY'' 7
     \<lparr>year = 2024, month = 1, day = 10, hour = 0, minute = 0, second = 0, microsecond = 0\<rparr> []
   = (Inr [\<lparr>finding_to = JStr ''0xAAA'', finding_method = JStr ''0xa9059cbb'',
             finding_age_days = 5, finding_tx_hash = JStr ''0xh1''\<rparr>,
           \<lparr>finding_to = JStr ''0xBBB'', finding_method = JStr ''0x095ea7b3'',
             finding_age_days = 2, finding_tx_hash = JStr ''0xh3''\<rparr>],
      [getsourcecode_params (JStr ''0xAAA'') ''KEY'', getsourcecode_params (JStr ''0xBBB'') ''KEY''])
   \<and> (\<exists>ys. subseq ys
        [JObj [(''to'', JStr ''0xAAA''), (''input'', JStr ''0xa9059cbb00''), (''hash'', JStr ''0xh1'')],
         JObj [(''to'', JStr ''0xCCC''), (''input'', JStr ''0x''), (''hash'', JStr ''0xh2'')],
         JObj [(''to'', JStr ''0xBBB''), (''input'', JStr ''0x095ea7b300''), (''hash'', JStr ''0xh3'')]]
      \<and> list_all2 (\<lambda>tx f. py_item tx ''to'' = Inr (finding_to f)
             \<and> py_item tx ''hash'' = Inr (finding_tx_hash f)
             \<and> bind_err (py_get tx ''input'' (JStr [])) py_slice10 = Inr (finding_method f))
           ys
           [\<lparr>finding_to = JStr ''0xAAA'', finding_method = JStr ''0xa9059cbb'',
              finding_age_days = 5, finding_tx_hash = JStr ''0xh1''\<rparr>,
            \<lparr>finding_to = JStr ''0xBBB'', finding_method = JStr ''0x095ea7b3'',
              finding_age_days = 2, finding_tx_hash = JStr ''0xh3''\<rparr>])"
proof -
  let ?api = "explorer_seq
        [JObj [(''status'', JStr ''1''), (''result'',
           JArr [JObj [(''SourceCode'', JStr []), (''LastUpdated'', JStr ''2024-01-05'')]])],
         JObj [(''status'', JStr ''1''), (''result'',
           JArr [JObj [(''SourceCode'', JStr []), (''LastUpdated'', JStr ''2024-01-08'')]])]]"
  let ?now = "\<lparr>year = 2024, month = 1, day = 10, hour = 0, minute = 0, second = 0,
                microsecond = 0\<rparr>"
  let ?txs = "[JObj [(''to'', JStr ''0xAAA''), (''input'', JStr ''0xa9059cbb00''), (''hash'', JStr ''0xh1'')],
      JObj [(''to'', JStr ''0xCCC''), (''input'', JStr ''0x''), (''hash'', JStr ''0xh2'')],
      JObj [(''to'', JStr ''0xBBB''), (''input'', JStr ''0x095ea7b300''), (''hash'', JStr ''0xh3'')]]"
  have run: "detect_suspicious_contracts ?api ?txs ''KEY'' 7 ?now []
   = (Inr [\<lparr>finding_to = JStr ''0xAAA'', finding_method = JStr ''0xa9059cbb'',
             finding_age_days = 5, finding_tx_hash = JStr ''0xh1''\<rparr>,
           \<lparr>finding_to = JStr ''0xBBB'', finding_method = JStr ''0x095ea7b3'',
             finding_age_days = 2, finding_tx_hash = JStr ''0xh3''\<rparr>],
      [getsourcecode_params (JStr ''0xAAA'') ''KEY'', getsourcecode_params (JStr ''0xBBB'') ''KEY''])"
    by (simp add: eval_defs)
  from C7_findings_in_input_order [OF run] run
  show ?thesis by blast
qed

text \<open>
  Claim C8. Each transaction contributes at most one finding: a run that returns has
  no more findings than transactions, and one iteration of the loop leaves the list as
  it was or appends exactly one finding.
\<close>

theorem C8_at_most_one_finding_per_transaction:
  "(detect_suspicious_contracts api transactions api_key max_age_days now log = (Inr out, log')
      \<longrightarrow> length out \<le> length transactions)
   \<and> (loop_body api api_key now max_age_days tx suspicious log = (Inr suspicious', log'')
      \<longrightarrow> suspicious' = suspicious \<or> (\<exists>f. suspicious' = suspicious @ [f]))"
  using detect_loop_length [of api api_key now max_age_days transactions "[]" log out log']
    loop_body_one [of api api_key now max_age_days tx suspicious log suspicious' log'']
  by (simp add: detect_suspicious_contracts_def)

text \<open>
  Two transactions, one finding.
\<close>

theorem C8_witness:
  "detect_suspicious_contracts
     (explorer_const (JObj [(''result'',
        JArr [JObj [(''SourceCode'', JStr []), (''LastUpdated'', JStr ''2024-01-05'')]])]))
     [JObj [(''to'', JStr ''0xAAA''), (''input'', JStr ''0xa9059cbb00''), (''hash'', JStr ''0xh1'')],
      JObj [(''to'', JNull), (''input'', JStr ''0xa9059cbb00''), (''hash'', JStr ''0xh2'')]]
     ''KEY'' 7
     \<lparr>year = 2024, month = 1, day = 10, hour = 0, minute = 0, second = 0, microsecond = 0\<rparr> []
   = (Inr [\<lparr>finding_to = JStr ''0xAAA'', finding_method = JStr ''0xa9059cbb'',
             finding_age_days = 5, finding_tx_hash = JStr ''0xh1''\<rparr>],
      [getsourcecode_params (JStr ''0xAAA'') ''KEY''])
   \<and> length [\<lparr>finding_to = JStr ''0xAAA'', finding_method = JStr ''0xa9059cbb'',
               finding_age_days = 5, finding_tx_hash = JStr ''0xh1''\<rparr>] \<le> (2::nat)
   \<and> loop_body
     (explorer_const (JObj [(''result'',
        JArr [JObj [(''SourceCode'', JStr []), (''LastUpdated'', JStr ''2024-01-05'')]])]))
     ''KEY''
     \<lparr>year = 2024, month = 1, day = 10, hour = 0, minute = 0, second = 0, microsecond = 0\<rparr> 7
     (JObj [(''to'', JStr ''0xAAA''), (''input'', JStr ''0xa9059cbb00''), (''hash'', JStr ''0xh1'')])
     [] []
   = (Inr ([] @ [\<lparr>finding_to = JStr ''0xAAA'', finding_method = JStr ''0xa9059cbb'',
             finding_age_days = 5, finding_tx_hash = JStr ''0xh1''\<rparr>]),
      [getsourcecode_params (JStr ''0xAAA'') ''KEY''])"
proof -
  let ?api = "explorer_const (JObj [(''result'',
        JArr [JObj [(''SourceCode'', JStr []), (''LastUpdated'', JStr ''2024-01-05'')]])])"
  let ?now = "\<lparr>year = 2024, month = 1, day = 10, hour = 0, minute = 0, second = 0,
                microsecond = 0\<rparr>"
  let ?tx = "JObj [(''to'', JStr ''0xAAA''), (''input'', JStr ''0xa9059cbb00''),
                   (''hash'', JStr ''0xh1'')]"
  let ?f = "\<lparr>finding_to = JStr ''0xAAA'', finding_method = JStr ''0xa9059cbb'',
              finding_age_days = 5, finding_tx_hash = JStr ''0xh1''\<rparr>"
  have body: "loop_body ?api ''KEY'' ?now 7 ?tx [] []
      = (Inr [?f], [getsourcecode_params (JStr ''0xAAA'') ''KEY''])"
    by (simp add: eval_defs)
  have run: "detect_suspicious_contracts ?api
      [?tx, JObj [(''to'', JNull), (''input'', JStr ''0xa9059cbb00''), (''hash'', JStr ''0xh2'')]]
      ''KEY'' 7 ?now [] = (Inr [?f], [getsourcecode_params (JStr ''0xAAA'') ''KEY''])"
    using body by (simp add: detect_suspicious_contracts_def) (simp add: loop_body_def)
  from C8_at_most_one_finding_per_transaction [of ?api _ "''KEY''" 7 ?now "[]" "[?f]"
      "[getsourcecode_params (JStr ''0xAAA'') ''KEY'']" ?tx "[]" "[?f]"
      "[getsourcecode_params (JStr ''0xAAA'') ''KEY'']"] run body
  show ?thesis by simp
qed



text \<open>
  Claim C10. When the payload of a flagged transaction has fewer than ten characters,
  the method selector of its finding is the whole payload.
\<close>

theorem C10_short_payload_kept_whole:
  assumes "detect_loop api api_key now max_age_days pre [] log0 = (Inr before, log)"
    and "tx = JObj kvs" "map_of kvs ''to'' = Some recipient" "truthy recipient"
    and "map_of kvs ''input'' = Some (JStr input_data)" "input_data \<noteq> []"
      "input_data \<noteq> ''0x''"
    and "map_of kvs ''hash'' = Some h"
    and "fetch_contract_info api recipient api_key log = (Inr contract_info, log1)"
    and "py_get contract_info ''SourceCode'' (JStr []) = Inr (JStr source_code)"
      "strip source_code = []"
    and "py_get contract_info ''LastUpdated'' (JStr []) = Inr created"
      "strptime created = Inr created_date"
    and "detect_loop api api_key now max_age_days post [] log1 = (Inr after, log2)"
    and "sub_days now created_date \<le> max_age_days"
    and "length input_data < 10"
  shows "detect_suspicious_contracts api (pre @ tx # post) api_key max_age_days now log0 =
           (Inr (before
                 @ [\<lparr>finding_to = recipient, finding_method = JStr input_data,
                      finding_age_days = sub_days now created_date, finding_tx_hash = h\<rparr>]
                 @ after), log2)"
  using run_continue [OF assms(1) loop_body_unverified [OF assms(2-13)] assms(14)] assms(15,16)
  by simp

text \<open>
  A payload of four characters.
\<close>

theorem C10_witness:
  "detect_suspicious_contracts
     (explorer_const (JObj [(''status'', JStr ''1''), (''result'',
        JArr [JObj [(''SourceCode'', JStr []), (''LastUpdated'', JStr ''2024-01-05'')]])]))
     ([] @ JObj [(''to'', JStr ''0xAAA''), (''input'', JStr ''0xa9''), (''hash'', JStr ''0xh1'')] # [])
     ''KEY'' 7
     \<lparr>year = 2024, month = 1, day = 10, hour = 12, minute = 30, second = 0, microsecond = 5\<rparr>
     []
   = (Inr [\<lparr>finding_to = JStr ''0xAAA'', finding_method = JStr ''0xa9'',
             finding_age_days = 5, finding_tx_hash = JStr ''0xh1''\<rparr>],
      [getsourcecode_params (JStr ''0xAAA'') ''KEY''])"
proof -
  let ?info = "JObj [(''SourceCode'', JStr []), (''LastUpdated'', JStr ''2024-01-05'')]"
  let ?api = "explorer_const (JObj [(''status'', JStr ''1''), (''result'', JArr [?info])])"
  let ?now = "\<lparr>year = 2024, month = 1, day = 10, hour = 12, minute = 30, second = 0,
                microsecond = 5\<rparr>"
  let ?kvs = "[(''to'', JStr ''0xAAA''), (''input'', JStr ''0xa9''), (''hash'', JStr ''0xh1'')]"
  let ?cd = "\<lparr>year = 2024, month = 1, day = 5, hour = 0, minute = 0, second = 0,
               microsecond = 0\<rparr>"
  have pre: "detect_loop ?api ''KEY'' ?now 7 [] [] [] = (Inr [], [])"
    by simp
  have f: "fetch_contract_info ?api (JStr ''0xAAA'') ''KEY'' []
      = (Inr ?info, [getsourcecode_params (JStr ''0xAAA'') ''KEY''])"
    by (simp add: fetch_contract_info_def get_json_def explorer_const_def bind_err_def)
  have d: "strptime (JStr ''2024-01-05'') = Inr ?cd"
    by (simp add: eval_defs)
  have age: "sub_days ?now ?cd = 5"
    by (simp add: eval_defs)
  have post: "detect_loop ?api ''KEY'' ?now 7 [] []
      [getsourcecode_params (JStr ''0xAAA'') ''KEY''] =
      (Inr [], [getsourcecode_params (JStr ''0xAAA'') ''KEY''])"
    by simp
  have s: "strip [] = []" by (simp add: strip_def)
  from C10_short_payload_kept_whole [OF pre refl, of ?kvs "JStr ''0xAAA''"
      "''0xa9''" "JStr ''0xh1''", OF _ _ _ _ _ _ f _ s _ d post]
  show ?thesis by (simp add: age)
qed

end
